theory Spec2Isabelle
  imports Complex_Main
begin

section \<open>Data model of \<open>gammapy/modeling/sampler.py\<close>\<close>

text \<open>
  Python exceptions are values. Only the exception classes that the modelled code can
  raise are listed; the string is the message (or the unbound name).
\<close>

datatype exn =
    ValueError string
  | IndexError
  | KeyError string
  | AttributeError string
  | UnboundLocalError string
  | ConfigurationError

text \<open>
  The values that occur in the sampler options dictionary. Python floats are modelled
  as real numbers.
\<close>

datatype pyval = PyNone | PyBool bool | PyInt int | PyFloat real | PyStr string

type_synonym opts = "string \<rightharpoonup> pyval"

text \<open>Python truthiness, as used by \<open>if self.sampler_opts["step_sampler"]\<close>.\<close>

fun truthy :: "pyval \<Rightarrow> bool" where
  "truthy PyNone = False"
| "truthy (PyBool b) = b"
| "truthy (PyInt n) = (n \<noteq> 0)"
| "truthy (PyFloat x) = (x \<noteq> 0)"
| "truthy (PyStr s) = (s \<noteq> [])"

text \<open>\<open>d[k]\<close> on a dictionary raises \<open>KeyError\<close> on a missing key.\<close>

definition getitem :: "opts \<Rightarrow> string \<Rightarrow> exn + pyval" where
  "getitem d k = (case d k of None \<Rightarrow> Inl (KeyError k) | Some v \<Rightarrow> Inr v)"

type_synonym matrix = "real list list"

text \<open>
  A parameter object. The prior, when set, is represented by its inverse CDF
  (\<open>par.prior._inverse_cdf\<close>).
\<close>

record Parameter =
  par_name :: string
  par_value :: real
  par_error :: real
  par_frozen :: bool
  par_prior :: "(real \<Rightarrow> real) option"

record Covariance =
  cov_parameters :: "Parameter list"
  cov_data :: matrix

text \<open>
  The model set owns the parameter objects: \<open>parameters\<close> is the store, and a parameter
  object is identified by its position in it. Mutating a parameter in place is an
  update of the store at that position.
\<close>

record Models =
  parameters :: "Parameter list"
  covariance :: "Covariance option"

text \<open>
  Modelled from the spec: the \<open>Parameters\<close> class (with its \<open>free_parameters\<close> view) is
  not among the sources. The spec describes an ordered free-parameter view whose
  insertion order is significant; a free parameter is one that is not fixed. The view
  is the list of references (store positions) of the parameters that are not frozen,
  in store order.
\<close>

definition free_parameters :: "Parameter list \<Rightarrow> nat list" where
  "free_parameters ps = filter (\<lambda>r. \<not> par_frozen (ps ! r)) [0..<length ps]"

section \<open>\<open>Sampler.__init__\<close>\<close>

record NestedSampler =
  ns_names :: "string list"
  ns_log_dir :: pyval
  ns_resume :: pyval
  ns_stepsampler :: "pyval option"

record Sampler =
  sampler_obj :: "NestedSampler option"
  backend :: string
  sampler_opts :: opts

definition default_opts :: opts where
  "default_opts =
     [''live_points'' \<mapsto> PyInt 200,
      ''frac_remain'' \<mapsto> PyFloat (1/2),
      ''log_dir'' \<mapsto> PyNone,
      ''resume'' \<mapsto> PyStr ''subfolder'',
      ''step_sampler'' \<mapsto> PyBool False,
      ''nsteps'' \<mapsto> PyInt 20]"

text \<open>
  \<open>default_opts\<close> is bound only in the \<open>"ultranest"\<close> branch; for any other backend the
  read of the unbound local raises. \<open>dict.update\<close> is \<open>++\<close> on maps: the entries of the
  argument win.
\<close>

definition Sampler_init :: "string \<Rightarrow> opts option \<Rightarrow> exn + Sampler" where
  "Sampler_init backend_arg sampler_opts_arg =
     (if backend_arg = ''ultranest'' then
        Inr \<lparr> sampler_obj = None,
              backend = backend_arg,
              sampler_opts =
                (case sampler_opts_arg of
                   None \<Rightarrow> default_opts
                 | Some user \<Rightarrow> default_opts ++ user) \<rparr>
      else Inl (UnboundLocalError ''default_opts''))"

section \<open>\<open>Sampler._update_models\<close>\<close>

text \<open>
  The result dictionary of the engine. The keys read by the code are
  \<open>"ncall"\<close>, \<open>"insertion_order_MWW_test"/"converged"\<close>, \<open>"posterior"/"mean"\<close>,
  \<open>"posterior"/"stdev"\<close> and \<open>"samples"\<close> (rows are draws, columns are free parameters);
  the spec says the payload contains at least these, so they are fields.
\<close>

record ultranest_result =
  ncall :: int
  converged :: bool
  posterior_mean :: "real list"
  posterior_stdev :: "real list"
  samples :: matrix

text \<open>
  Modelled from the spec: \<open>numpy.cov\<close> is a library function outside the sources. The
  spec asks for the standard unbiased sample covariance. As the library documents it,
  each row of the argument is a variable and each column an observation; the row mean
  is subtracted from every row, and entry \<open>(i, j)\<close> is the dot product of the centred
  rows \<open>i\<close> and \<open>j\<close> divided by the number of observations minus one.
\<close>

definition average :: "real list \<Rightarrow> real" where
  "average xs = sum_list xs / real (length xs)"

definition centre :: "real list \<Rightarrow> real list" where
  "centre xs = map (\<lambda>x. x - average xs) xs"

definition dot :: "real list \<Rightarrow> real list \<Rightarrow> real" where
  "dot xs ys = sum_list (map (\<lambda>(x, y). x * y) (zip xs ys))"

definition np_cov :: "matrix \<Rightarrow> matrix" where
  "np_cov X =
     map (\<lambda>r. map (\<lambda>s. dot (centre r) (centre s) / (real (length r) - 1)) X) X"

text \<open>
  Modelled from the spec: \<open>Covariance.from_factor_matrix\<close> lives in the module
  \<open>covariance\<close>, which is not among the sources. The spec describes the covariance as a
  square matrix derived from the sample covariance of the free parameters and aligned
  index for index with the free-parameter order; the matrix is stored as it is given.
\<close>

definition from_factor_matrix :: "Parameter list \<Rightarrow> matrix \<Rightarrow> Covariance" where
  "from_factor_matrix ps m = \<lparr> cov_parameters = ps, cov_data = m \<rparr>"

text \<open>
  The loop \<open>for i, par in enumerate(free_parameters)\<close>. The first component of a pair is
  the index \<open>i\<close>, the second the reference of \<open>par\<close> in the store. Reading
  \<open>posterior["mean"][i]\<close> or \<open>posterior["stdev"][i]\<close> out of range raises \<open>IndexError\<close>;
  the store is then left as the earlier assignments made it, which is what \<open>Inl\<close>
  carries.
\<close>

fun update_loop ::
  "(nat \<times> nat) list \<Rightarrow> real list \<Rightarrow> real list \<Rightarrow> Parameter list
     \<Rightarrow> (exn \<times> Parameter list) + Parameter list" where
  "update_loop [] mean stdev ps = Inr ps"
| "update_loop ((i, r) # rest) mean stdev ps =
     (if length mean \<le> i then Inl (IndexError, ps)
      else
        let ps1 = ps[r := (ps ! r)\<lparr>par_value := mean ! i\<rparr>] in
        if length stdev \<le> i then Inl (IndexError, ps1)
        else update_loop rest mean stdev (ps1[r := (ps1 ! r)\<lparr>par_error := stdev ! i\<rparr>]))"

text \<open>
  Modelled from the spec: the assignment \<open>models.covariance = covariance\<close> goes through
  the model-set class, which is not among the sources, so what the assignment does
  besides storing the covariance is not visible. The spec says that the step attaches
  the new covariance to the owning model set and that the values and errors after the
  update are the supplied means and standard deviations: the covariance is stored
  and the parameters are left as the loop made them.
\<close>

definition set_covariance :: "Models \<Rightarrow> Covariance \<Rightarrow> Models" where
  "set_covariance m c = m\<lparr>covariance := Some c\<rparr>"

text \<open>
  \<open>_update_models\<close>: the loop over the free parameters, then the covariance of the
  transposed sample matrix, built on the parameters as the loop left them and
  assigned to the model set. An exception in the loop leaves the model set with the
  parameters updated so far and without a new covariance.
\<close>

definition update_models :: "Models \<Rightarrow> ultranest_result \<Rightarrow> (exn \<times> Models) + Models" where
  "update_models models results =
     (let posterior_mean' = posterior_mean results;
          posterior_stdev' = posterior_stdev results;
          samples' = samples results
      in case update_loop (enumerate 0 (free_parameters (parameters models)))
                posterior_mean' posterior_stdev' (parameters models) of
           Inl (e, ps) \<Rightarrow> Inl (e, models\<lparr>parameters := ps\<rparr>)
         | Inr ps \<Rightarrow>
             Inr (set_covariance (models\<lparr>parameters := ps\<rparr>)
                    (from_factor_matrix ps (np_cov (transpose samples')))))"

text \<open>
  The sample covariance in the words of the spec: columns of the sample matrix are
  parameters, rows are draws, and entry \<open>(i, j)\<close> is the sum over the draws of the
  products of the deviations of columns \<open>i\<close> and \<open>j\<close> from their column means, divided
  by the number of draws minus one.
\<close>

definition column :: "matrix \<Rightarrow> nat \<Rightarrow> real list" where
  "column S j = map (\<lambda>row. row ! j) S"

definition sample_covariance_spec :: "nat \<Rightarrow> matrix \<Rightarrow> matrix" where
  "sample_covariance_spec n S =
     map (\<lambda>i. map (\<lambda>j.
            (\<Sum>k\<leftarrow>[0..<length S].
                (S ! k ! i - average (column S i)) * (S ! k ! j - average (column S j)))
              / (real (length S) - 1)) [0..<n]) [0..<n]"

section \<open>\<open>SamplerLikelihood\<close>\<close>

text \<open>
  \<open>like_function\<close> is the statistic of the dataset collection; it reads the current
  parameter values of the model set. \<open>like_parameters\<close> holds the references of the free
  parameters.
\<close>

record SamplerLikelihood =
  like_function :: "Models \<Rightarrow> real"
  like_parameters :: "nat list"

text \<open>
  Modelled from the spec: the vectorised assignment \<open>parameters.value = value\<close> belongs
  to the \<open>Parameters\<close> class, which is not among the sources. The spec says it assigns
  the vector into the parameter set in the fixed free-parameter order: the value at
  position \<open>i\<close> goes to the parameter at position \<open>i\<close> of the view.
\<close>

definition set_values :: "nat list \<Rightarrow> real list \<Rightarrow> Parameter list \<Rightarrow> Parameter list" where
  "set_values refs vs ps =
     fold (\<lambda>(r, v) qs. qs[r := (qs ! r)\<lparr>par_value := v\<rparr>]) (zip refs vs) ps"

definition fcn :: "SamplerLikelihood \<Rightarrow> real list \<Rightarrow> Models \<Rightarrow> real \<times> Models" where
  "fcn like value' models =
     (let models1 = models\<lparr>parameters :=
                       set_values (like_parameters like) value' (parameters models)\<rparr>;
          total_stat = - (1/2) * like_function like models1
      in (total_stat, models1))"

section \<open>\<open>Sampler.sampler_ultranest\<close>\<close>

text \<open>
  The list comprehension of \<open>_prior_inverse_cdf\<close> over \<open>zip(parameters, values)\<close>. An
  element of the collection is either \<open>None\<close> or a parameter object. Reading \<open>.prior\<close> of
  \<open>None\<close>, or \<open>._inverse_cdf\<close> of a prior that is \<open>None\<close>, raises \<open>AttributeError\<close>.
\<close>

fun inverse_cdfs :: "(Parameter option \<times> real) list \<Rightarrow> exn + real list" where
  "inverse_cdfs [] = Inr []"
| "inverse_cdfs ((par, val) # rest) =
     (case par of
        None \<Rightarrow> Inl (AttributeError ''prior'')
      | Some p \<Rightarrow>
          (case par_prior p of
             None \<Rightarrow> Inl (AttributeError ''_inverse_cdf'')
           | Some inverse_cdf \<Rightarrow>
               (case inverse_cdfs rest of
                  Inl e \<Rightarrow> Inl e
                | Inr ys \<Rightarrow> Inr (inverse_cdf val # ys))))"

definition prior_inverse_cdf :: "Parameter option list \<Rightarrow> real list \<Rightarrow> exn + real list" where
  "prior_inverse_cdf parameters' values =
     (if None \<in> set parameters' then
        Inl (ValueError
          ''Some parameters have no prior set. You need priors on all parameters.'')
      else inverse_cdfs (zip parameters' values))"

text \<open>
  The nested-sampling engine is an external collaborator and a parameter of the model,
  in two parts. \<open>construct\<close> is the constructor \<open>ReactiveNestedSampler\<close>: it is given the
  parameter names, the likelihood callable, the prior transform, \<open>log_dir\<close> and
  \<open>resume\<close>, and returns the sampler object or raises. \<open>run_engine\<close> is the method \<open>run\<close> of
  that object, with \<open>min_num_live_points\<close> and \<open>frac_remain\<close>: it returns the result
  dictionary or raises. Both may call the transform and the likelihood callable, which
  mutates the model set, so both take the model set and return it. The field
  \<open>_sampler\<close> is assigned only when the constructor returns.
  The priors are captured when the transform is created; no modelled code writes them.
\<close>

type_synonym loglike = "real list \<Rightarrow> Models \<Rightarrow> real \<times> Models"
type_synonym transform = "real list \<Rightarrow> exn + real list"

record engine =
  construct ::
    "string list \<Rightarrow> loglike \<Rightarrow> transform \<Rightarrow> pyval \<Rightarrow> pyval \<Rightarrow> Models
       \<Rightarrow> (exn + NestedSampler) \<times> Models"
  run_engine ::
    "NestedSampler \<Rightarrow> pyval \<Rightarrow> pyval \<Rightarrow> loglike \<Rightarrow> transform \<Rightarrow> Models
       \<Rightarrow> (exn + ultranest_result) \<times> Models"

definition sampler_ultranest ::
  "engine \<Rightarrow> Sampler \<Rightarrow> nat list \<Rightarrow> SamplerLikelihood \<Rightarrow> Models
     \<Rightarrow> (exn + ultranest_result) \<times> Sampler \<times> Models" where
  "sampler_ultranest eng self refs like models =
     (let opts = sampler_opts self;
          ps = parameters models;
          transform = prior_inverse_cdf (map (\<lambda>r. Some (ps ! r)) refs)
      in
      (case getitem opts ''log_dir'' of
         Inl e \<Rightarrow> (Inl e, self, models)
       | Inr log_dir \<Rightarrow>
      (case getitem opts ''resume'' of
         Inl e \<Rightarrow> (Inl e, self, models)
       | Inr resume \<Rightarrow>
      (case construct eng (map (\<lambda>r. par_name (ps ! r)) refs) (fcn like) transform
              log_dir resume models of
         (Inl e, models1) \<Rightarrow> (Inl e, self, models1)
       | (Inr ns, models1) \<Rightarrow>
      (let self1 = self\<lparr>sampler_obj := Some ns\<rparr>
       in
      (case getitem opts ''step_sampler'' of
         Inl e \<Rightarrow> (Inl e, self1, models1)
       | Inr step \<Rightarrow>
      (let ns1 = (if truthy step then ns\<lparr>ns_stepsampler := Some step\<rparr> else ns);
           self2 = self1\<lparr>sampler_obj := Some ns1\<rparr>
       in
      (case getitem opts ''live_points'' of
         Inl e \<Rightarrow> (Inl e, self2, models1)
       | Inr live_points' \<Rightarrow>
      (case getitem opts ''frac_remain'' of
         Inl e \<Rightarrow> (Inl e, self2, models1)
       | Inr frac_remain' \<Rightarrow>
      (let (result, models2) =
             run_engine eng ns1 live_points' frac_remain' (fcn like) transform models1
       in (result, self2, models2)))))))))))"

section \<open>\<open>SamplerResult\<close> and \<open>Sampler.run\<close>\<close>

record SamplerResult =
  nfev :: int
  success :: bool
  res_models :: "Models option"
  res_samples :: "matrix option"
  sampler_results :: "ultranest_result option"

definition SamplerResult_init ::
  "int \<Rightarrow> bool \<Rightarrow> Models option \<Rightarrow> matrix option \<Rightarrow> ultranest_result option
     \<Rightarrow> SamplerResult" where
  "SamplerResult_init nfev' success' models' samples' sampler_results' =
     \<lparr> nfev = nfev', success = success', res_models = models',
       res_samples = samples', sampler_results = sampler_results' \<rparr>"

text \<open>\<open>from_ultranest\<close> passes no \<open>models\<close> keyword, so the default \<open>None\<close> is stored.\<close>

definition from_ultranest :: "ultranest_result \<Rightarrow> SamplerResult" where
  "from_ultranest ultranest_result' =
     SamplerResult_init (ncall ultranest_result') (converged ultranest_result') None
       (Some (samples ultranest_result')) (Some ultranest_result')"

record Datasets =
  models :: Models
  stat_sum_likelihood :: "Models \<Rightarrow> real"

text \<open>
  Modelled from the spec: \<open>_parse_datasets\<close> (module \<open>utils\<close>) and the \<open>copy\<close> method of
  the model set are not among the sources. The spec describes a dataset collection
  exposing the model set, its parameters and the statistic, and a result that refers
  to the model set at the time of completion; a copy of a value is that value.
\<close>

definition parse_datasets :: "Datasets \<Rightarrow> Datasets \<times> Parameter list" where
  "parse_datasets datasets = (datasets, parameters (models datasets))"

definition copy :: "Models \<Rightarrow> Models" where
  "copy m = m"

text \<open>
  \<open>run\<close> returns its result or exception together with the sampler object and the
  dataset collection as the call leaves them. The printing of the engine's summary has
  no effect on the state and is left out.
\<close>

definition run ::
  "engine \<Rightarrow> Sampler \<Rightarrow> Datasets \<Rightarrow> (exn + SamplerResult) \<times> Sampler \<times> Datasets" where
  "run eng self datasets0 =
     (let (datasets, parameters0) = parse_datasets datasets0;
          refs = free_parameters parameters0
      in
      if backend self = ''ultranest'' then
        let like = \<lparr> like_function = stat_sum_likelihood datasets, like_parameters = refs \<rparr>
        in
        case sampler_ultranest eng self refs like (models datasets) of
          (Inl e, self1, m1) \<Rightarrow> (Inl e, self1, datasets\<lparr>models := m1\<rparr>)
        | (Inr result, self1, m1) \<Rightarrow>
            (case update_models m1 result of
               Inl (e, m2) \<Rightarrow> (Inl e, self1, datasets\<lparr>models := m2\<rparr>)
             | Inr m2 \<Rightarrow>
                 let result1 = from_ultranest result;
                     result2 = result1\<lparr>res_models := Some (copy m2)\<rparr>
                 in (Inr result2, self1, datasets\<lparr>models := m2\<rparr>))
      else
        (Inl (ValueError (''sampler '' @ backend self @ '' is not supported.'')),
         self, datasets))"

section \<open>Seeded spectral simulation\<close>

text \<open>
  Modelled from the spec: the class \<open>SpectrumSimulation\<close> is not among the sources; only
  its test module is. The tests show a simulation object with the fields \<open>obs\<close> and
  \<open>result\<close>, written by \<open>simulate_obs\<close> and \<open>run\<close>. The spec gives the algorithm: fold
  the source model through the response functions to an expected rate per
  reconstructed-energy bin and multiply by the livetime; seed a generator from the
  integer seed; draw the on vector per bin; with a background model and alpha, draw an
  off vector from the expected background divided by alpha and keep alpha; fail with
  a configuration error when only one of background model and alpha is set, and with
  the error of the response functions when their binnings do not fit.

  The response functions and the random generator are external collaborators:
  \<open>fold_response\<close> gives the expected rate per bin or raises, \<open>seed_rng\<close> makes a generator
  state from a seed, and \<open>poisson\<close> draws one count for a mean and advances the
  generator.
\<close>

record SimulatedObservation =
  obs_id :: int
  on_vector :: "nat list"
  off_vector :: "nat list option"
  obs_alpha :: "real option"

record ('m, 'r) SpectrumSimulation =
  aeff :: 'r
  edisp :: 'r
  source_model :: 'm
  livetime :: real
  background_model :: "'m option"
  alpha :: "real option"
  obs :: "SimulatedObservation option"
  result :: "SimulatedObservation list"

record ('m, 'r, 'g) collaborators =
  fold_response :: "'r \<Rightarrow> 'r \<Rightarrow> 'm \<Rightarrow> exn + real list"
  seed_rng :: "int \<Rightarrow> 'g"
  poisson :: "real \<Rightarrow> 'g \<Rightarrow> nat \<times> 'g"

fun draw_counts :: "(real \<Rightarrow> 'g \<Rightarrow> nat \<times> 'g) \<Rightarrow> real list \<Rightarrow> 'g \<Rightarrow> nat list \<times> 'g" where
  "draw_counts draw [] g = ([], g)"
| "draw_counts draw (mu # mus) g =
     (let (n, g1) = draw mu g;
          (ns, g2) = draw_counts draw mus g1
      in (n # ns, g2))"

definition npred ::
  "('m, 'r, 'g) collaborators \<Rightarrow> ('m, 'r) SpectrumSimulation \<Rightarrow> 'm \<Rightarrow> exn + real list" where
  "npred env sim model =
     (case fold_response env (aeff sim) (edisp sim) model of
        Inl e \<Rightarrow> Inl e
      | Inr rate \<Rightarrow> Inr (map (\<lambda>r. r * livetime sim) rate))"

definition simulate_one ::
  "('m, 'r, 'g) collaborators \<Rightarrow> ('m, 'r) SpectrumSimulation \<Rightarrow> int
     \<Rightarrow> exn + SimulatedObservation" where
  "simulate_one env sim seed =
     (case (background_model sim, alpha sim) of
        (None, Some a) \<Rightarrow> Inl ConfigurationError
      | (Some b, None) \<Rightarrow> Inl ConfigurationError
      | (None, None) \<Rightarrow>
          (case npred env sim (source_model sim) of
             Inl e \<Rightarrow> Inl e
           | Inr expected \<Rightarrow>
               (let (on, g1) = draw_counts (poisson env) expected (seed_rng env seed)
                in Inr \<lparr> obs_id = seed, on_vector = on,
                         off_vector = None, obs_alpha = None \<rparr>))
      | (Some b, Some a) \<Rightarrow>
          (case npred env sim (source_model sim) of
             Inl e \<Rightarrow> Inl e
           | Inr expected \<Rightarrow>
               (case npred env sim b of
                  Inl e \<Rightarrow> Inl e
                | Inr background \<Rightarrow>
                    (let (on, g1) =
                           draw_counts (poisson env)
                             (map (\<lambda>(s, k). s + k) (zip expected background))
                             (seed_rng env seed);
                         (off, g2) =
                           draw_counts (poisson env) (map (\<lambda>k. k / a) background) g1
                     in Inr \<lparr> obs_id = seed, on_vector = on,
                              off_vector = Some off, obs_alpha = Some a \<rparr>))))"

text \<open>\<open>simulate_obs\<close> stores the observation in the field \<open>obs\<close> of the object.\<close>

definition simulate_obs ::
  "('m, 'r, 'g) collaborators \<Rightarrow> int \<Rightarrow> ('m, 'r) SpectrumSimulation
     \<Rightarrow> exn + ('m, 'r) SpectrumSimulation" where
  "simulate_obs env seed sim =
     (case simulate_one env sim seed of
        Inl e \<Rightarrow> Inl e
      | Inr ob \<Rightarrow> Inr (sim\<lparr>obs := Some ob\<rparr>))"

text \<open>
  The batch run: one \<open>simulate_obs\<close> per seed, in input order, on the same object; each
  observation is appended to \<open>result\<close>.
\<close>

fun batch_loop ::
  "('m, 'r, 'g) collaborators \<Rightarrow> int list \<Rightarrow> ('m, 'r) SpectrumSimulation
     \<Rightarrow> exn + ('m, 'r) SpectrumSimulation" where
  "batch_loop env [] sim = Inr sim"
| "batch_loop env (seed # seeds) sim =
     (case simulate_obs env seed sim of
        Inl e \<Rightarrow> Inl e
      | Inr sim1 \<Rightarrow>
          (case obs sim1 of
             None \<Rightarrow> Inl (AttributeError ''obs'')
           | Some ob \<Rightarrow> batch_loop env seeds (sim1\<lparr>result := result sim1 @ [ob]\<rparr>)))"

definition simulate_batch ::
  "('m, 'r, 'g) collaborators \<Rightarrow> int list \<Rightarrow> ('m, 'r) SpectrumSimulation
     \<Rightarrow> exn + ('m, 'r) SpectrumSimulation" where
  "simulate_batch env seeds sim = batch_loop env seeds (sim\<lparr>result := []\<rparr>)"

text \<open>
  The model state of a simulation object, in the words of the spec: the model
  parameters, the response functions, the livetime and the background configuration.
  Two objects have the same model state when they agree on these fields; they may
  differ in the stored observation and result set.
\<close>

definition same_model_state ::
  "('m, 'r) SpectrumSimulation \<Rightarrow> ('m, 'r) SpectrumSimulation \<Rightarrow> bool" where
  "same_model_state sim sim' =
     (aeff sim' = aeff sim \<and> edisp sim' = edisp sim \<and>
      source_model sim' = source_model sim \<and> livetime sim' = livetime sim \<and>
      background_model sim' = background_model sim \<and> alpha sim' = alpha sim)"

section \<open>Example inputs\<close>

text \<open>
  A model set with two free parameters and one frozen parameter between them, and
  engine results for it: three draws of the two free parameters.
\<close>

definition par_index :: Parameter where
  "par_index = \<lparr> par_name = ''index'', par_value = 2, par_error = 0,
                  par_frozen = False, par_prior = Some (\<lambda>u. 1 + 4 * u) \<rparr>"

definition par_reference :: Parameter where
  "par_reference = \<lparr> par_name = ''reference'', par_value = 1, par_error = 0,
                      par_frozen = True, par_prior = None \<rparr>"

definition par_amplitude :: Parameter where
  "par_amplitude = \<lparr> par_name = ''amplitude'', par_value = 1, par_error = 0,
                      par_frozen = False, par_prior = Some (\<lambda>u. 10 * u) \<rparr>"

definition example_models :: Models where
  "example_models =
     \<lparr> parameters = [par_index, par_reference, par_amplitude], covariance = None \<rparr>"

definition example_results :: ultranest_result where
  "example_results =
     \<lparr> ncall = 100, converged = True,
       posterior_mean = [5/2, 3], posterior_stdev = [1/10, 1/5],
       samples = [[2, 3], [3, 3], [5/2, 6]] \<rparr>"

definition results_long :: ultranest_result where
  "results_long = example_results\<lparr>posterior_mean := [5/2, 3, 7],
                                    posterior_stdev := [1/10, 1/5, 9]\<rparr>"

definition results_short :: ultranest_result where
  "results_short = example_results\<lparr>posterior_mean := [5/2]\<rparr>"

text \<open>
  A dataset collection over the example model set, whose statistic is the sum of the
  parameter values, and the likelihood adapter that \<open>run\<close> builds for it.
\<close>

definition example_datasets :: Datasets where
  "example_datasets =
     \<lparr> models = example_models,
       stat_sum_likelihood = (\<lambda>m. sum_list (map par_value (parameters m))) \<rparr>"

definition example_like :: SamplerLikelihood where
  "example_like =
     \<lparr> like_function = stat_sum_likelihood example_datasets,
       like_parameters = free_parameters (parameters example_models) \<rparr>"

text \<open>
  A sampler as the constructor leaves it for \<open>"ultranest"\<close> without user options, and
  the same object after \<open>sampler.backend = "emcee"\<close>.
\<close>

definition example_sampler :: Sampler where
  "example_sampler =
     \<lparr> sampler_obj = None, backend = ''ultranest'', sampler_opts = default_opts \<rparr>"

definition emcee_sampler :: Sampler where
  "emcee_sampler = example_sampler\<lparr>backend := ''emcee''\<rparr>"

text \<open>
  A small engine for the examples. Its constructor makes one test call at the centre
  of the unit cube, the transform first and then the likelihood, and its run evaluates
  that point again. Its posterior is that point and its sample matrix has three rows.
\<close>

definition one_point_engine :: engine where
  "one_point_engine =
     \<lparr> construct = (\<lambda>names loglike transform' log_dir resume ms.
         (case transform' (map (\<lambda>name. 1/2) names) of
            Inl e \<Rightarrow> (Inl e, ms)
          | Inr point \<Rightarrow>
              (let (logl, ms1) = loglike point ms
               in (Inr \<lparr> ns_names = names, ns_log_dir = log_dir, ns_resume = resume,
                         ns_stepsampler = None \<rparr>,
                   ms1)))),
       run_engine = (\<lambda>ns live_points' frac_remain' loglike transform' ms.
         (case transform' (map (\<lambda>name. 1/2) (ns_names ns)) of
            Inl e \<Rightarrow> (Inl e, ms)
          | Inr point \<Rightarrow>
              (let (logl, ms1) = loglike point ms
               in (Inr \<lparr> ncall = 1, converged = True,
                         posterior_mean = point,
                         posterior_stdev = map (\<lambda>x. 0) point,
                         samples = [point, map (\<lambda>x. x + 1) point, map (\<lambda>x. x + 2) point] \<rparr>,
                   ms1)))) \<rparr>"

text \<open>The example model set with the prior of its last free parameter unset.\<close>

definition models_noprior :: Models where
  "models_noprior =
     \<lparr> parameters = [par_index, par_reference, par_amplitude\<lparr>par_prior := None\<rparr>],
       covariance = None \<rparr>"

definition datasets_noprior :: Datasets where
  "datasets_noprior = example_datasets\<lparr>models := models_noprior\<rparr>"




text \<open>
  Collaborators for the simulation examples: a spectral model is its expected rate per
  bin, the generator state is an integer seeded with the seed itself, and a draw
  depends on the mean and on the generator state.
\<close>

definition example_env :: "(real list, unit, int) collaborators" where
  "example_env =
     \<lparr> fold_response = (\<lambda>a e m. Inr m),
       seed_rng = (\<lambda>s. s),
       poisson = (\<lambda>mu g. (nat \<lfloor>mu\<rfloor> + nat (g mod 3), g + 1)) \<rparr>"

definition example_sim :: "(real list, unit) SpectrumSimulation" where
  "example_sim =
     \<lparr> aeff = (), edisp = (), source_model = [1/2, 1], livetime = 4,
       background_model = None, alpha = None, obs = None, result = [] \<rparr>"



section \<open>Properties of the free-parameter view and of the update loop\<close>


lemma free_parameters_distinct: "distinct (free_parameters ps)"
  by (simp add: free_parameters_def)

lemma free_parameters_range: "r \<in> set (free_parameters ps) \<Longrightarrow> r < length ps"
  by (simp add: free_parameters_def)

lemma free_parameters_iff:
  "r \<in> set (free_parameters ps) \<longleftrightarrow> r < length ps \<and> \<not> par_frozen (ps ! r)"
  by (auto simp: free_parameters_def)

lemma free_parameters_cong:
  "length ps' = length ps \<Longrightarrow> \<forall>r<length ps. par_frozen (ps' ! r) = par_frozen (ps ! r)
     \<Longrightarrow> free_parameters ps' = free_parameters ps"
  unfolding free_parameters_def by (auto intro: filter_cong)

lemma update_loop_ok:
  "distinct refs \<Longrightarrow> \<forall>r\<in>set refs. r < length ps \<Longrightarrow>
   k + length refs \<le> length mean \<Longrightarrow> k + length refs \<le> length stdev \<Longrightarrow>
   \<exists>ps'. update_loop (enumerate k refs) mean stdev ps = Inr ps' \<and>
         length ps' = length ps \<and>
         (\<forall>j<length refs. ps' ! (refs ! j) =
             (ps ! (refs ! j))\<lparr>par_value := mean ! (k + j), par_error := stdev ! (k + j)\<rparr>) \<and>
         (\<forall>r<length ps. r \<notin> set refs \<longrightarrow> ps' ! r = ps ! r)"
proof (induction refs arbitrary: k ps)
  case Nil
  then show ?case by simp
next
  case (Cons r rest)
  let ?ps2 = "ps[r := (ps ! r)\<lparr>par_value := mean ! k, par_error := stdev ! k\<rparr>]"
  have step: "update_loop (enumerate k (r # rest)) mean stdev ps =
              update_loop (enumerate (Suc k) rest) mean stdev ?ps2"
    using Cons.prems by (simp add: Let_def)
  have r: "r < length ps" "r \<notin> set rest" using Cons.prems by auto
  have "\<exists>ps'. update_loop (enumerate (Suc k) rest) mean stdev ?ps2 = Inr ps' \<and>
         length ps' = length ?ps2 \<and>
         (\<forall>j<length rest. ps' ! (rest ! j) =
             (?ps2 ! (rest ! j))\<lparr>par_value := mean ! (Suc k + j), par_error := stdev ! (Suc k + j)\<rparr>) \<and>
         (\<forall>r<length ?ps2. r \<notin> set rest \<longrightarrow> ps' ! r = ?ps2 ! r)"
    using Cons.prems by (intro Cons.IH) auto
  then obtain ps' where ps': "update_loop (enumerate (Suc k) rest) mean stdev ?ps2 = Inr ps'"
      "length ps' = length ps"
      "\<And>j. j < length rest \<Longrightarrow> ps' ! (rest ! j) =
             (?ps2 ! (rest ! j))\<lparr>par_value := mean ! (Suc k + j), par_error := stdev ! (Suc k + j)\<rparr>"
      "\<And>q. q < length ps \<Longrightarrow> q \<notin> set rest \<Longrightarrow> ps' ! q = ?ps2 ! q"
    by auto
  have a: "ps' ! ((r # rest) ! j) =
        (ps ! ((r # rest) ! j))\<lparr>par_value := mean ! (k + j), par_error := stdev ! (k + j)\<rparr>"
    if "j < length (r # rest)" for j
  proof (cases j)
    case 0
    then show ?thesis using ps'(4)[of r] r by simp
  next
    case (Suc j')
    then have "j' < length rest" using that by simp
    moreover from this have "rest ! j' \<noteq> r" using r(2) by (metis nth_mem)
    ultimately show ?thesis using ps'(3)[of j'] Suc by simp
  qed
  have b: "ps' ! q = ps ! q" if "q < length ps" "q \<notin> set (r # rest)" for q
    using ps'(4)[of q] that by simp
  show ?case using step ps'(1,2) a b by auto
qed


subsection \<open>The covariance of the transposed sample matrix\<close>

lemma transpose_columns:
  assumes "S \<noteq> []" and "\<forall>row\<in>set S. length row = n"
  shows "transpose S = map (column S) [0..<n]"
proof -
  have "transpose S = map (\<lambda>i. map (\<lambda>j. S ! j ! i) [0..<length S]) [0..<n]"
    using assms by (intro transpose_rectangle) auto
  moreover have "map (\<lambda>j. S ! j ! i) [0..<length S] = column S i" for i
    unfolding column_def by (rule nth_equalityI) auto
  ultimately show ?thesis by simp
qed

lemma dot_as_index_sum:
  assumes "length xs = m" and "length ys = m"
  shows "dot xs ys = (\<Sum>k\<leftarrow>[0..<m]. xs ! k * ys ! k)"
proof -
  have "zip xs ys = map (\<lambda>k. (xs ! k, ys ! k)) [0..<m]"
    using assms by (intro nth_equalityI) auto
  then show ?thesis by (simp add: dot_def comp_def)
qed

lemma dot_centre_columns:
  "dot (centre (column S i)) (centre (column S j)) =
     (\<Sum>k\<leftarrow>[0..<length S].
        (S ! k ! i - average (column S i)) * (S ! k ! j - average (column S j)))"
proof -
  have "dot (centre (column S i)) (centre (column S j)) =
        (\<Sum>k\<leftarrow>[0..<length S]. centre (column S i) ! k * centre (column S j) ! k)"
    by (rule dot_as_index_sum) (simp_all add: centre_def column_def)
  also have "\<dots> = (\<Sum>k\<leftarrow>[0..<length S].
        (S ! k ! i - average (column S i)) * (S ! k ! j - average (column S j)))"
    by (rule arg_cong[where f = sum_list], rule map_cong) (simp_all add: centre_def column_def)
  finally show ?thesis .
qed

lemma np_cov_transpose:
  assumes "S \<noteq> []" and "\<forall>row\<in>set S. length row = n"
  shows "np_cov (transpose S) = sample_covariance_spec n S"
proof -
  have len: "length (column S i) = length S" for i
    by (simp add: column_def)
  have "np_cov (map (column S) [0..<n]) =
        map (\<lambda>i. map (\<lambda>j. dot (centre (column S i)) (centre (column S j))
                            / (real (length S) - 1)) [0..<n]) [0..<n]"
    unfolding np_cov_def map_map comp_def len ..
  then show ?thesis
    unfolding transpose_columns[OF assms] sample_covariance_spec_def dot_centre_columns .
qed

lemma sample_covariance_spec_dims:
  "length (sample_covariance_spec n S) = n"
  "row \<in> set (sample_covariance_spec n S) \<Longrightarrow> length row = n"
  by (auto simp: sample_covariance_spec_def)

lemma sample_covariance_spec_sym:
  "i < n \<Longrightarrow> j < n \<Longrightarrow> sample_covariance_spec n S ! i ! j = sample_covariance_spec n S ! j ! i"
  by (simp add: sample_covariance_spec_def mult.commute)


subsection \<open>When a posterior array is too short\<close>

lemma update_loop_short:
  "distinct refs \<Longrightarrow> \<forall>r\<in>set refs. r < length ps \<Longrightarrow>
   k \<le> min (length mean) (length stdev) \<Longrightarrow>
   min (length mean) (length stdev) < k + length refs \<Longrightarrow>
   \<exists>ps'. update_loop (enumerate k refs) mean stdev ps = Inl (IndexError, ps') \<and>
         length ps' = length ps \<and>
         (\<forall>j<length refs. k + j < min (length mean) (length stdev) \<longrightarrow>
             par_value (ps' ! (refs ! j)) = mean ! (k + j) \<and>
             par_error (ps' ! (refs ! j)) = stdev ! (k + j)) \<and>
         (\<forall>q<length ps. q \<notin> set refs \<longrightarrow> ps' ! q = ps ! q)"
proof (induction refs arbitrary: k ps)
  case Nil
  then show ?case by (simp add: min_def split: if_splits)
next
  case (Cons r rest)
  have r: "r < length ps" "r \<notin> set rest" using Cons.prems by auto
  consider (m) "length mean \<le> k" | (s) "k < length mean" "length stdev \<le> k"
    | (go) "k < length mean" "k < length stdev"
    by linarith
  then show ?case
  proof cases
    case m
    then show ?thesis by (auto simp: min_def split: if_splits)
  next
    case s
    then show ?thesis using r by (auto simp: Let_def nth_list_update min_def split: if_splits)
  next
    case go
    let ?ps2 = "ps[r := (ps ! r)\<lparr>par_value := mean ! k, par_error := stdev ! k\<rparr>]"
    have step: "update_loop (enumerate k (r # rest)) mean stdev ps =
                update_loop (enumerate (Suc k) rest) mean stdev ?ps2"
      using go r by (simp add: Let_def)
    show ?thesis
    proof (cases "Suc k + length rest \<le> min (length mean) (length stdev)")
      case True
      then show ?thesis using Cons.prems(4) by (simp add: min_def split: if_splits)
    next
      case False
      have "\<exists>ps'. update_loop (enumerate (Suc k) rest) mean stdev ?ps2 = Inl (IndexError, ps') \<and>
         length ps' = length ?ps2 \<and>
         (\<forall>j<length rest. Suc k + j < min (length mean) (length stdev) \<longrightarrow>
             par_value (ps' ! (rest ! j)) = mean ! (Suc k + j) \<and>
             par_error (ps' ! (rest ! j)) = stdev ! (Suc k + j)) \<and>
         (\<forall>q<length ?ps2. q \<notin> set rest \<longrightarrow> ps' ! q = ?ps2 ! q)"
        using Cons.prems go False by (intro Cons.IH) auto
      then obtain ps' where ps':
        "update_loop (enumerate (Suc k) rest) mean stdev ?ps2 = Inl (IndexError, ps')"
        "length ps' = length ps"
        "\<And>j. j < length rest \<Longrightarrow> Suc k + j < min (length mean) (length stdev) \<Longrightarrow>
             par_value (ps' ! (rest ! j)) = mean ! (Suc k + j) \<and>
             par_error (ps' ! (rest ! j)) = stdev ! (Suc k + j)"
        "\<And>q. q < length ps \<Longrightarrow> q \<notin> set rest \<Longrightarrow> ps' ! q = ?ps2 ! q"
        by auto
      have a: "par_value (ps' ! ((r # rest) ! j)) = mean ! (k + j) \<and>
               par_error (ps' ! ((r # rest) ! j)) = stdev ! (k + j)"
        if "j < length (r # rest)" "k + j < min (length mean) (length stdev)" for j
      proof (cases j)
        case 0
        then show ?thesis using ps'(4)[of r] r by simp
      next
        case (Suc j')
        then show ?thesis using ps'(3)[of j'] that by simp
      qed
      have b: "ps' ! q = ps ! q" if "q < length ps" "q \<notin> set (r # rest)" for q
        using ps'(4)[of q] that by simp
      show ?thesis using step ps'(1,2) a b by auto
    qed
  qed
qed


subsection \<open>The consolidation step as a whole\<close>


lemma update_loop_free_parameters:
  assumes "length (free_parameters ps) \<le> length mean"
      and "length (free_parameters ps) \<le> length stdev"
  shows "\<exists>ps'. update_loop (enumerate 0 (free_parameters ps)) mean stdev ps = Inr ps' \<and>
          length ps' = length ps \<and>
          free_parameters ps' = free_parameters ps \<and>
          (\<forall>i<length (free_parameters ps).
             ps' ! (free_parameters ps ! i) =
               (ps ! (free_parameters ps ! i))\<lparr>par_value := mean ! i, par_error := stdev ! i\<rparr>) \<and>
          (\<forall>r<length ps. r \<notin> set (free_parameters ps) \<longrightarrow> ps' ! r = ps ! r)"
proof -
  let ?refs = "free_parameters ps"
  have "\<forall>r\<in>set ?refs. r < length ps" by (simp add: free_parameters_range)
  from update_loop_ok[OF free_parameters_distinct this, of 0 mean stdev] assms
  obtain ps' where ps':
    "update_loop (enumerate 0 ?refs) mean stdev ps = Inr ps'"
    "length ps' = length ps"
    "\<forall>j<length ?refs. ps' ! (?refs ! j) =
        (ps ! (?refs ! j))\<lparr>par_value := mean ! j, par_error := stdev ! j\<rparr>"
    "\<forall>r<length ps. r \<notin> set ?refs \<longrightarrow> ps' ! r = ps ! r"
    by auto
  have frozen: "par_frozen (ps' ! r) = par_frozen (ps ! r)" if "r < length ps" for r
  proof (cases "r \<in> set ?refs")
    case True
    then obtain j where "j < length ?refs" "?refs ! j = r" by (auto simp: in_set_conv_nth)
    then show ?thesis using ps'(3) by auto
  next
    case False
    then show ?thesis using ps'(4) that by simp
  qed
  have "free_parameters ps' = ?refs"
    by (rule free_parameters_cong) (simp_all add: ps'(2) frozen)
  then show ?thesis using ps' by blast
qed

lemma update_models_after_loop:
  "update_loop (enumerate 0 (free_parameters (parameters ms)))
      (posterior_mean results) (posterior_stdev results) (parameters ms) = Inr ps' \<Longrightarrow>
   update_models ms results =
     Inr (set_covariance (ms\<lparr>parameters := ps'\<rparr>)
            (from_factor_matrix ps' (np_cov (transpose (samples results)))))"
  by (simp add: update_models_def)

lemma update_models_ok:
  assumes "length (free_parameters (parameters ms)) \<le> length (posterior_mean results)"
      and "length (free_parameters (parameters ms)) \<le> length (posterior_stdev results)"
  shows "\<exists>ps'. update_models ms results =
            Inr (ms\<lparr>parameters := ps',
                  covariance := Some (from_factor_matrix ps' (np_cov (transpose (samples results))))\<rparr>) \<and>
          length ps' = length (parameters ms) \<and>
          free_parameters ps' = free_parameters (parameters ms) \<and>
          (\<forall>i<length (free_parameters (parameters ms)).
             ps' ! (free_parameters (parameters ms) ! i) =
               (parameters ms ! (free_parameters (parameters ms) ! i))
                 \<lparr>par_value := posterior_mean results ! i,
                  par_error := posterior_stdev results ! i\<rparr>) \<and>
          (\<forall>r<length (parameters ms).
             r \<notin> set (free_parameters (parameters ms)) \<longrightarrow> ps' ! r = parameters ms ! r)"
proof -
  let ?ps = "parameters ms"
  let ?refs = "free_parameters ?ps"
  have "\<forall>r\<in>set ?refs. r < length ?ps" by (simp add: free_parameters_range)
  from update_loop_ok[OF free_parameters_distinct this, of 0 "posterior_mean results"
      "posterior_stdev results"] assms
  obtain ps' where ps':
    "update_loop (enumerate 0 ?refs) (posterior_mean results) (posterior_stdev results) ?ps = Inr ps'"
    "length ps' = length ?ps"
    "\<forall>j<length ?refs. ps' ! (?refs ! j) =
        (?ps ! (?refs ! j))\<lparr>par_value := posterior_mean results ! j,
                            par_error := posterior_stdev results ! j\<rparr>"
    "\<forall>r<length ?ps. r \<notin> set ?refs \<longrightarrow> ps' ! r = ?ps ! r"
    by auto
  have frozen: "par_frozen (ps' ! r) = par_frozen (?ps ! r)" if "r < length ?ps" for r
  proof (cases "r \<in> set ?refs")
    case True
    then obtain j where "j < length ?refs" "?refs ! j = r" by (auto simp: in_set_conv_nth)
    then show ?thesis using ps'(3) by auto
  next
    case False
    then show ?thesis using ps'(4) that by simp
  qed
  have "free_parameters ps' = ?refs"
    by (rule free_parameters_cong) (simp_all add: ps'(2) frozen)
  moreover have "update_models ms results =
            Inr (ms\<lparr>parameters := ps',
                  covariance := Some (from_factor_matrix ps' (np_cov (transpose (samples results))))\<rparr>)"
    using ps'(1) by (simp add: update_models_def set_covariance_def)
  ultimately show ?thesis using ps'(2,3,4) by blast
qed

lemma example_free: "free_parameters (parameters example_models) = [0, 2]"
  by (simp add: example_models_def free_parameters_def par_index_def par_reference_def
      par_amplitude_def)


section \<open>Posterior consolidation: values and errors\<close>

text \<open>
  Claim C2. When the posterior means and standard deviations have as many entries as
  there are free parameters, the loop of the consolidation step completes, and for
  each free parameter, at index \<open>i\<close> of the free-parameter view, it has set the value
  of the parameter object at that reference to \<open>posterior_means[i]\<close> and its error to
  \<open>posterior_stdevs[i]\<close>. The objects are updated in place: the store keeps its length
  and the view its order, the other fields of a free parameter are as before, and
  the parameters outside the view are untouched. The store that the loop leaves is
  the one on which the covariance is built and to whose model set it is assigned; the
  statement is about the store at that point, the assignment of the covariance being
  outside the sources.
\<close>

theorem update_models_sets_values_and_errors:
  assumes "length (posterior_mean results) = length (free_parameters (parameters ms))"
      and "length (posterior_stdev results) = length (free_parameters (parameters ms))"
  shows "\<exists>ps'. update_loop (enumerate 0 (free_parameters (parameters ms)))
                  (posterior_mean results) (posterior_stdev results) (parameters ms) = Inr ps' \<and>
          update_models ms results =
            Inr (set_covariance (ms\<lparr>parameters := ps'\<rparr>)
                   (from_factor_matrix ps' (np_cov (transpose (samples results))))) \<and>
          length ps' = length (parameters ms) \<and>
          free_parameters ps' = free_parameters (parameters ms) \<and>
          (\<forall>i<length (free_parameters (parameters ms)).
             ps' ! (free_parameters (parameters ms) ! i) =
               (parameters ms ! (free_parameters (parameters ms) ! i))
                 \<lparr>par_value := posterior_mean results ! i,
                  par_error := posterior_stdev results ! i\<rparr>) \<and>
          (\<forall>r<length (parameters ms).
             r \<notin> set (free_parameters (parameters ms)) \<longrightarrow> ps' ! r = parameters ms ! r)"
proof -
  from update_loop_free_parameters[of "parameters ms" "posterior_mean results"
      "posterior_stdev results"] assms
  obtain ps' where ps':
     "update_loop (enumerate 0 (free_parameters (parameters ms)))
         (posterior_mean results) (posterior_stdev results) (parameters ms) = Inr ps' \<and>
      length ps' = length (parameters ms) \<and>
      free_parameters ps' = free_parameters (parameters ms) \<and>
      (\<forall>i<length (free_parameters (parameters ms)).
             ps' ! (free_parameters (parameters ms) ! i) =
               (parameters ms ! (free_parameters (parameters ms) ! i))
                 \<lparr>par_value := posterior_mean results ! i,
                  par_error := posterior_stdev results ! i\<rparr>) \<and>
      (\<forall>r<length (parameters ms).
             r \<notin> set (free_parameters (parameters ms)) \<longrightarrow> ps' ! r = parameters ms ! r)"
    by auto
  then have "update_models ms results =
            Inr (set_covariance (ms\<lparr>parameters := ps'\<rparr>)
                   (from_factor_matrix ps' (np_cov (transpose (samples results)))))"
    by (intro update_models_after_loop) simp
  with ps' show ?thesis by blast
qed

theorem update_models_sets_values_and_errors_witness:
  "length (posterior_mean example_results) = length (free_parameters (parameters example_models)) \<and>
   length (posterior_stdev example_results) = length (free_parameters (parameters example_models)) \<and>
   (\<exists>ps'. update_loop (enumerate 0 (free_parameters (parameters example_models)))
             (posterior_mean example_results) (posterior_stdev example_results)
             (parameters example_models) = Inr ps' \<and>
      update_models example_models example_results =
        Inr (set_covariance (example_models\<lparr>parameters := ps'\<rparr>)
               (from_factor_matrix ps' (np_cov (transpose (samples example_results))))) \<and>
      ps' ! 0 = par_index\<lparr>par_value := 5/2, par_error := 1/10\<rparr> \<and>
      ps' ! 1 = par_reference \<and>
      ps' ! 2 = par_amplitude\<lparr>par_value := 3, par_error := 1/5\<rparr>)"
proof -
  have h1: "length (posterior_mean example_results) =
            length (free_parameters (parameters example_models))"
    by (simp add: example_free) (simp add: example_results_def)
  have h2: "length (posterior_stdev example_results) =
            length (free_parameters (parameters example_models))"
    by (simp add: example_free) (simp add: example_results_def)
  from update_models_sets_values_and_errors[OF h1 h2]
  obtain ps' where m:
    "update_loop (enumerate 0 (free_parameters (parameters example_models)))
             (posterior_mean example_results) (posterior_stdev example_results)
             (parameters example_models) = Inr ps'"
    "update_models example_models example_results =
        Inr (set_covariance (example_models\<lparr>parameters := ps'\<rparr>)
               (from_factor_matrix ps' (np_cov (transpose (samples example_results)))))"
    "\<forall>i<length (free_parameters (parameters example_models)).
             ps' ! (free_parameters (parameters example_models) ! i) =
               (parameters example_models ! (free_parameters (parameters example_models) ! i))
                 \<lparr>par_value := posterior_mean example_results ! i,
                  par_error := posterior_stdev example_results ! i\<rparr>"
    "\<forall>r<length (parameters example_models).
             r \<notin> set (free_parameters (parameters example_models)) \<longrightarrow>
               ps' ! r = parameters example_models ! r"
    by blast
  have "ps' ! 0 = par_index\<lparr>par_value := 5/2, par_error := 1/10\<rparr>"
    using m(3)[rule_format, of 0]
    by (simp add: example_free) (simp add: example_models_def example_results_def)
  moreover have "ps' ! 2 = par_amplitude\<lparr>par_value := 3, par_error := 1/5\<rparr>"
    using m(3)[rule_format, of 1]
    by (simp add: example_free) (simp add: example_models_def example_results_def)
  moreover have "ps' ! 1 = par_reference"
    using m(4)[rule_format, of 1] by (simp add: example_free) (simp add: example_models_def)
  ultimately show ?thesis using h1 h2 m(1,2) by blast
qed

section \<open>Posterior consolidation: the covariance\<close>

lemma example_sample_covariance:
  "sample_covariance_spec (length (free_parameters (parameters example_models)))
     (samples example_results) = [[1/4, 0], [0, 3]]"
  by (simp add: example_free)
     (simp add: sample_covariance_spec_def example_results_def column_def average_def
      upt_conv_Cons numeral_2_eq_2 numeral_3_eq_3)


text \<open>
  Claim C1. For a model set with \<open>N\<close> free parameters and engine results whose sample
  matrix has \<open>M\<close> rows of length \<open>N\<close> with \<open>M > N\<close>, the consolidation step attaches a
  covariance whose data is the sample covariance of the sample matrix, columns being
  parameters and rows draws: entry \<open>(i, j)\<close> is the sum over the draws of the products
  of the deviations from the column means, divided by the number of draws minus one
  (the unbiased formula). The matrix has \<open>N\<close> rows of length \<open>N\<close> and is symmetric.
  Floats are taken as real numbers.
\<close>

theorem update_models_covariance:
  assumes "length (posterior_mean results) = length (free_parameters (parameters ms))"
      and "length (posterior_stdev results) = length (free_parameters (parameters ms))"
      and "\<forall>row\<in>set (samples results). length row = length (free_parameters (parameters ms))"
      and "length (free_parameters (parameters ms)) < length (samples results)"
  shows "\<exists>ms' c. update_models ms results = Inr ms' \<and> covariance ms' = Some c \<and>
           cov_data c =
             sample_covariance_spec (length (free_parameters (parameters ms))) (samples results) \<and>
           length (cov_data c) = length (free_parameters (parameters ms)) \<and>
           (\<forall>row\<in>set (cov_data c). length row = length (free_parameters (parameters ms))) \<and>
           (\<forall>i<length (free_parameters (parameters ms)).
              \<forall>j<length (free_parameters (parameters ms)).
                cov_data c ! i ! j =
                  (\<Sum>k\<leftarrow>[0..<length (samples results)].
                      (samples results ! k ! i - average (column (samples results) i)) *
                      (samples results ! k ! j - average (column (samples results) j)))
                    / (real (length (samples results)) - 1) \<and>
                cov_data c ! i ! j = cov_data c ! j ! i)"
proof -
  let ?n = "length (free_parameters (parameters ms))"
  let ?S = "samples results"
  have ne: "?S \<noteq> []" using assms(4) by auto
  have cov: "np_cov (transpose ?S) = sample_covariance_spec ?n ?S"
    using np_cov_transpose[OF ne assms(3)] .
  from update_models_ok[of ms results] assms(1,2)
  obtain ps' where ps': "update_models ms results =
            Inr (ms\<lparr>parameters := ps',
                  covariance := Some (from_factor_matrix ps' (np_cov (transpose ?S)))\<rparr>)"
    by auto
  let ?c = "from_factor_matrix ps' (np_cov (transpose ?S))"
  let ?ms' = "ms\<lparr>parameters := ps', covariance := Some ?c\<rparr>"
  have data: "cov_data ?c = sample_covariance_spec ?n ?S"
    by (simp add: from_factor_matrix_def cov)
  have entries: "sample_covariance_spec ?n ?S ! i ! j =
                  (\<Sum>k\<leftarrow>[0..<length ?S].
                      (?S ! k ! i - average (column ?S i)) *
                      (?S ! k ! j - average (column ?S j)))
                    / (real (length ?S) - 1)" if "i < ?n" "j < ?n" for i j
    using that by (simp add: sample_covariance_spec_def)
  have "update_models ms results = Inr ?ms'" using ps' .
  moreover have "covariance ?ms' = Some ?c" by simp
  moreover have "length (cov_data ?c) = ?n"
    by (simp add: data sample_covariance_spec_dims)
  moreover have "\<forall>row\<in>set (cov_data ?c). length row = ?n"
    by (simp add: data sample_covariance_spec_dims)
  moreover have "\<forall>i<?n. \<forall>j<?n.
      cov_data ?c ! i ! j =
                  (\<Sum>k\<leftarrow>[0..<length ?S].
                      (?S ! k ! i - average (column ?S i)) *
                      (?S ! k ! j - average (column ?S j)))
                    / (real (length ?S) - 1) \<and>
      cov_data ?c ! i ! j = cov_data ?c ! j ! i"
    unfolding data using entries sample_covariance_spec_sym by blast
  ultimately show ?thesis using data by blast
qed

theorem update_models_covariance_witness:
  "length (posterior_mean example_results) = length (free_parameters (parameters example_models)) \<and>
   length (posterior_stdev example_results) = length (free_parameters (parameters example_models)) \<and>
   map length (samples example_results) =
     replicate 3 (length (free_parameters (parameters example_models))) \<and>
   length (free_parameters (parameters example_models)) < length (samples example_results) \<and>
   (\<exists>ms' c. update_models example_models example_results = Inr ms' \<and>
       covariance ms' = Some c \<and> cov_data c = [[1/4, 0], [0, 3]])"
proof -
  have h1: "length (posterior_mean example_results) =
            length (free_parameters (parameters example_models))"
    by (simp add: example_free) (simp add: example_results_def)
  have h2: "length (posterior_stdev example_results) =
            length (free_parameters (parameters example_models))"
    by (simp add: example_free) (simp add: example_results_def)
  have h3: "\<forall>row\<in>set (samples example_results).
       length row = length (free_parameters (parameters example_models))"
    by (simp add: example_free) (simp add: example_results_def)
  have h4: "length (free_parameters (parameters example_models)) <
            length (samples example_results)"
    by (simp add: example_free) (simp add: example_results_def)
  from update_models_covariance[OF h1 h2 h3 h4]
  obtain ms' c where "update_models example_models example_results = Inr ms'"
    "covariance ms' = Some c"
    "cov_data c = sample_covariance_spec (length (free_parameters (parameters example_models)))
                    (samples example_results)"
    by blast
  then have "update_models example_models example_results = Inr ms' \<and>
       covariance ms' = Some c \<and> cov_data c = [[1/4, 0], [0, 3]]"
    by (simp add: example_sample_covariance)
  moreover have "map length (samples example_results) =
     replicate 3 (length (free_parameters (parameters example_models)))"
    by (simp add: example_free) (simp add: example_results_def numeral_3_eq_3)
  ultimately show ?thesis using h1 h2 h4 by blast
qed

section \<open>Posterior consolidation: lengths that do not match\<close>

text \<open>
  Claim C7 says that the consolidation step fails with a configuration error whenever
  the number of free parameters, the lengths of the posterior means and standard
  deviations and the column count of the sample matrix are not all equal. The code has
  no such check. With two free parameters and three means and standard deviations the
  call returns normally; with two free parameters and one mean it raises \<open>IndexError\<close>
  at index 1, after the first parameter has been updated.
\<close>

theorem update_models_length_mismatch_counterexample:
  "length (free_parameters (parameters example_models)) = 2 \<and>
   length (posterior_mean results_long) = 3 \<and>
   length (posterior_stdev results_long) = 3 \<and>
   \<not> isl (update_models example_models results_long) \<and>
   length (posterior_mean results_short) = 1 \<and>
   update_models example_models results_short =
     Inl (IndexError,
          example_models\<lparr>parameters :=
            [par_index\<lparr>par_value := 5/2, par_error := 1/10\<rparr>, par_reference, par_amplitude]\<rparr>)"
  by (simp add: example_free update_models_def set_covariance_def)
     (simp add: results_long_def results_short_def example_results_def example_models_def)


text \<open>
  Claim C7 as amended. The consolidation step compares no lengths. When the posterior
  means and standard deviations each have at least as many entries as there are free
  parameters, the parameter loop completes without raising: it has set the value and
  the error of the free parameter at index \<open>i\<close> from the entries at index \<open>i\<close> and
  used no entry beyond, and the covariance is then built and assigned on that store.
  When one of the two is shorter, the step raises \<open>IndexError\<close> at the first index that
  is missing; the parameters before that index already carry their new value and
  error, and the covariance is left as it was.
\<close>

theorem update_models_no_length_check:
  "(length (free_parameters (parameters ms)) \<le> length (posterior_mean results) \<and>
    length (free_parameters (parameters ms)) \<le> length (posterior_stdev results) \<longrightarrow>
      (\<exists>ps'. update_loop (enumerate 0 (free_parameters (parameters ms)))
                (posterior_mean results) (posterior_stdev results) (parameters ms) = Inr ps' \<and>
         update_models ms results =
           Inr (set_covariance (ms\<lparr>parameters := ps'\<rparr>)
                  (from_factor_matrix ps' (np_cov (transpose (samples results))))) \<and>
         (\<forall>i<length (free_parameters (parameters ms)).
            par_value (ps' ! (free_parameters (parameters ms) ! i)) = posterior_mean results ! i \<and>
            par_error (ps' ! (free_parameters (parameters ms) ! i)) =
              posterior_stdev results ! i))) \<and>
   (min (length (posterior_mean results)) (length (posterior_stdev results))
      < length (free_parameters (parameters ms)) \<longrightarrow>
      (\<exists>ms'. update_models ms results = Inl (IndexError, ms') \<and>
         covariance ms' = covariance ms \<and>
         (\<forall>i<min (length (posterior_mean results)) (length (posterior_stdev results)).
            par_value (parameters ms' ! (free_parameters (parameters ms) ! i)) =
              posterior_mean results ! i \<and>
            par_error (parameters ms' ! (free_parameters (parameters ms) ! i)) =
              posterior_stdev results ! i)))"
proof (intro conjI impI)
  assume a: "length (free_parameters (parameters ms)) \<le> length (posterior_mean results) \<and>
    length (free_parameters (parameters ms)) \<le> length (posterior_stdev results)"
  from update_loop_free_parameters[of "parameters ms" "posterior_mean results"
      "posterior_stdev results"] a
  obtain ps' where ps':
     "update_loop (enumerate 0 (free_parameters (parameters ms)))
         (posterior_mean results) (posterior_stdev results) (parameters ms) = Inr ps'"
     "\<forall>i<length (free_parameters (parameters ms)).
             ps' ! (free_parameters (parameters ms) ! i) =
               (parameters ms ! (free_parameters (parameters ms) ! i))
                 \<lparr>par_value := posterior_mean results ! i,
                  par_error := posterior_stdev results ! i\<rparr>"
    by auto
  have "update_models ms results =
           Inr (set_covariance (ms\<lparr>parameters := ps'\<rparr>)
                  (from_factor_matrix ps' (np_cov (transpose (samples results)))))"
    using ps'(1) by (rule update_models_after_loop)
  moreover have "\<forall>i<length (free_parameters (parameters ms)).
            par_value (ps' ! (free_parameters (parameters ms) ! i)) = posterior_mean results ! i \<and>
            par_error (ps' ! (free_parameters (parameters ms) ! i)) =
              posterior_stdev results ! i"
    using ps'(2) by simp
  ultimately show "\<exists>ps'. update_loop (enumerate 0 (free_parameters (parameters ms)))
                (posterior_mean results) (posterior_stdev results) (parameters ms) = Inr ps' \<and>
         update_models ms results =
           Inr (set_covariance (ms\<lparr>parameters := ps'\<rparr>)
                  (from_factor_matrix ps' (np_cov (transpose (samples results))))) \<and>
         (\<forall>i<length (free_parameters (parameters ms)).
            par_value (ps' ! (free_parameters (parameters ms) ! i)) = posterior_mean results ! i \<and>
            par_error (ps' ! (free_parameters (parameters ms) ! i)) =
              posterior_stdev results ! i)"
    using ps'(1) by blast
next
  let ?ps = "parameters ms"
  let ?refs = "free_parameters ?ps"
  let ?k = "min (length (posterior_mean results)) (length (posterior_stdev results))"
  assume b: "?k < length ?refs"
  have "\<forall>r\<in>set ?refs. r < length ?ps" by (simp add: free_parameters_range)
  from update_loop_short[OF free_parameters_distinct this, of 0 "posterior_mean results"
      "posterior_stdev results"] b
  obtain ps' where ps':
    "update_loop (enumerate 0 ?refs) (posterior_mean results) (posterior_stdev results) ?ps
       = Inl (IndexError, ps')"
    "\<forall>j<length ?refs. j < ?k \<longrightarrow>
             par_value (ps' ! (?refs ! j)) = posterior_mean results ! j \<and>
             par_error (ps' ! (?refs ! j)) = posterior_stdev results ! j"
    by auto
  have "update_models ms results = Inl (IndexError, ms\<lparr>parameters := ps'\<rparr>)"
    using ps'(1) by (simp add: update_models_def)
  moreover have "\<forall>i<?k. par_value (ps' ! (?refs ! i)) = posterior_mean results ! i \<and>
             par_error (ps' ! (?refs ! i)) = posterior_stdev results ! i"
    using ps'(2) b by auto
  ultimately show "\<exists>ms'. update_models ms results = Inl (IndexError, ms') \<and>
         covariance ms' = covariance ms \<and>
         (\<forall>i<?k. par_value (parameters ms' ! (?refs ! i)) = posterior_mean results ! i \<and>
            par_error (parameters ms' ! (?refs ! i)) = posterior_stdev results ! i)"
    by simp
qed

theorem update_models_no_length_check_witness:
  "(length (free_parameters (parameters example_models)) \<le> length (posterior_mean results_long) \<and>
    length (free_parameters (parameters example_models)) \<le> length (posterior_stdev results_long) \<and>
    (\<exists>ps'. update_loop (enumerate 0 (free_parameters (parameters example_models)))
               (posterior_mean results_long) (posterior_stdev results_long)
               (parameters example_models) = Inr ps' \<and>
         update_models example_models results_long =
           Inr (set_covariance (example_models\<lparr>parameters := ps'\<rparr>)
                  (from_factor_matrix ps' (np_cov (transpose (samples results_long))))) \<and>
         par_value (ps' ! 2) = 3 \<and> par_error (ps' ! 2) = 1/5)) \<and>
   (min (length (posterior_mean results_short)) (length (posterior_stdev results_short))
      < length (free_parameters (parameters example_models)) \<and>
    (\<exists>ms'. update_models example_models results_short = Inl (IndexError, ms') \<and>
         covariance ms' = None \<and>
         par_value (parameters ms' ! 0) = 5/2 \<and> par_error (parameters ms' ! 0) = 1/10))"
proof -
  have h1: "length (free_parameters (parameters example_models)) \<le> length (posterior_mean results_long) \<and>
    length (free_parameters (parameters example_models)) \<le> length (posterior_stdev results_long)"
    by (simp add: example_free) (simp add: results_long_def)
  have h2: "min (length (posterior_mean results_short)) (length (posterior_stdev results_short))
      < length (free_parameters (parameters example_models))"
    by (simp add: example_free) (simp add: results_short_def example_results_def)
  from update_models_no_length_check[of example_models results_long] h1
  obtain ps1 where m1:
     "update_loop (enumerate 0 (free_parameters (parameters example_models)))
               (posterior_mean results_long) (posterior_stdev results_long)
               (parameters example_models) = Inr ps1"
     "update_models example_models results_long =
           Inr (set_covariance (example_models\<lparr>parameters := ps1\<rparr>)
                  (from_factor_matrix ps1 (np_cov (transpose (samples results_long)))))"
     "\<forall>i<length (free_parameters (parameters example_models)).
            par_value (ps1 ! (free_parameters (parameters example_models) ! i)) =
              posterior_mean results_long ! i \<and>
            par_error (ps1 ! (free_parameters (parameters example_models) ! i)) =
              posterior_stdev results_long ! i"
    by blast
  have a: "par_value (ps1 ! 2) = 3 \<and> par_error (ps1 ! 2) = 1/5"
    using m1(3)[rule_format, of 1] by (simp add: example_free) (simp add: results_long_def)
  from update_models_no_length_check[of example_models results_short] h2
  obtain ms2 where m2: "update_models example_models results_short = Inl (IndexError, ms2)"
     "covariance ms2 = covariance example_models"
     "\<forall>i<min (length (posterior_mean results_short)) (length (posterior_stdev results_short)).
            par_value (parameters ms2 ! (free_parameters (parameters example_models) ! i)) =
              posterior_mean results_short ! i \<and>
            par_error (parameters ms2 ! (free_parameters (parameters example_models) ! i)) =
              posterior_stdev results_short ! i"
    by blast
  have b: "par_value (parameters ms2 ! 0) = 5/2 \<and> par_error (parameters ms2 ! 0) = 1/10"
    using m2(3)[rule_format, of 0]
    by (simp add: example_free) (simp add: results_short_def example_results_def)
  have c: "covariance ms2 = None" using m2(2) by (simp add: example_models_def)
  show ?thesis using h1 h2 m1(1,2) a m2(1) b c by blast
qed

section \<open>The sampler options\<close>

text \<open>
  Claim C10. Constructing a sampler with backend \<open>"ultranest"\<close> succeeds, and its
  effective options are the defaults \<open>live_points = 200\<close>, \<open>frac_remain = 0.5\<close>,
  \<open>log_dir = None\<close>, \<open>resume = "subfolder"\<close>, \<open>step_sampler = False\<close>, \<open>nsteps = 20\<close>,
  overridden key by key: a key that the user supplies has the user's value, every
  other key has its default (and no value when it is not a default key either).
\<close>

theorem Sampler_init_ultranest_opts:
  "\<exists>s. Sampler_init ''ultranest'' user_opts = Inr s \<and>
        backend s = ''ultranest'' \<and>
        (\<forall>k. sampler_opts s k =
           (case (case user_opts of None \<Rightarrow> None | Some user \<Rightarrow> user k) of
              Some v \<Rightarrow> Some v
            | None \<Rightarrow>
                map_of [(''live_points'', PyInt 200),
                        (''frac_remain'', PyFloat (1/2)),
                        (''log_dir'', PyNone),
                        (''resume'', PyStr ''subfolder''),
                        (''step_sampler'', PyBool False),
                        (''nsteps'', PyInt 20)] k))"
proof -
  have d: "default_opts =
      map_of [(''live_points'', PyInt 200),
                        (''frac_remain'', PyFloat (1/2)),
                        (''log_dir'', PyNone),
                        (''resume'', PyStr ''subfolder''),
                        (''step_sampler'', PyBool False),
                        (''nsteps'', PyInt 20)]"
    unfolding default_opts_def by (rule ext) simp
  show ?thesis
    unfolding d[symmetric]
    by (cases user_opts) (auto simp: Sampler_init_def map_add_def split: option.splits)
qed

theorem Sampler_init_ultranest_opts_witness:
  "\<exists>s. Sampler_init ''ultranest'' (Some [''live_points'' \<mapsto> PyInt 400, ''verbose'' \<mapsto> PyBool True])
          = Inr s \<and>
        sampler_opts s ''live_points'' = Some (PyInt 400) \<and>
        sampler_opts s ''verbose'' = Some (PyBool True) \<and>
        sampler_opts s ''nsteps'' = Some (PyInt 20) \<and>
        sampler_opts s ''frac_remain'' = Some (PyFloat (1/2)) \<and>
        sampler_opts s ''other'' = None"
proof -
  from Sampler_init_ultranest_opts[of "Some [''live_points'' \<mapsto> PyInt 400, ''verbose'' \<mapsto> PyBool True]"]
  obtain s where s: "Sampler_init ''ultranest''
        (Some [''live_points'' \<mapsto> PyInt 400, ''verbose'' \<mapsto> PyBool True]) = Inr s"
    "\<And>k. sampler_opts s k =
           (case (case Some [''live_points'' \<mapsto> PyInt 400, ''verbose'' \<mapsto> PyBool True] of
                    None \<Rightarrow> None | Some user \<Rightarrow> user k) of
              Some v \<Rightarrow> Some v
            | None \<Rightarrow>
                map_of [(''live_points'', PyInt 200),
                        (''frac_remain'', PyFloat (1/2)),
                        (''log_dir'', PyNone),
                        (''resume'', PyStr ''subfolder''),
                        (''step_sampler'', PyBool False),
                        (''nsteps'', PyInt 20)] k)"
    by blast
  have "sampler_opts s ''live_points'' = Some (PyInt 400)" by (simp add: s(2))
  moreover have "sampler_opts s ''verbose'' = Some (PyBool True)" by (simp add: s(2))
  moreover have "sampler_opts s ''nsteps'' = Some (PyInt 20)" by (simp add: s(2))
  moreover have "sampler_opts s ''frac_remain'' = Some (PyFloat (1/2))" by (simp add: s(2))
  moreover have "sampler_opts s ''other'' = None" by (simp add: s(2))
  ultimately show ?thesis using s(1) by blast
qed

text \<open>
  For any other backend the constructor does not return: \<open>default_opts\<close> is read while
  unbound.
\<close>

lemma Sampler_init_other_backend:
  "b \<noteq> ''ultranest'' \<Longrightarrow> Sampler_init b user_opts = Inl (UnboundLocalError ''default_opts'')"
  by (simp add: Sampler_init_def)

section \<open>The likelihood adapter\<close>

lemma set_values_nth:
  "distinct refs \<Longrightarrow> \<forall>r\<in>set refs. r < length ps \<Longrightarrow> length vs = length refs \<Longrightarrow>
   length (set_values refs vs ps) = length ps \<and>
   (\<forall>i<length refs. set_values refs vs ps ! (refs ! i) = (ps ! (refs ! i))\<lparr>par_value := vs ! i\<rparr>) \<and>
   (\<forall>q<length ps. q \<notin> set refs \<longrightarrow> set_values refs vs ps ! q = ps ! q)"
proof (induction refs arbitrary: vs ps)
  case Nil
  then show ?case by (simp add: set_values_def)
next
  case (Cons r rest)
  then obtain v vs' where vs: "vs = v # vs'" by (cases vs) auto
  let ?ps1 = "ps[r := (ps ! r)\<lparr>par_value := v\<rparr>]"
  have step: "set_values (r # rest) vs ps = set_values rest vs' ?ps1"
    by (simp add: set_values_def vs)
  have r: "r < length ps" "r \<notin> set rest" using Cons.prems by auto
  have ih: "length (set_values rest vs' ?ps1) = length ?ps1 \<and>
   (\<forall>i<length rest. set_values rest vs' ?ps1 ! (rest ! i) = (?ps1 ! (rest ! i))\<lparr>par_value := vs' ! i\<rparr>) \<and>
   (\<forall>q<length ?ps1. q \<notin> set rest \<longrightarrow> set_values rest vs' ?ps1 ! q = ?ps1 ! q)"
    using Cons.prems vs by (intro Cons.IH) auto
  have a: "set_values rest vs' ?ps1 ! ((r # rest) ! i) = (ps ! ((r # rest) ! i))\<lparr>par_value := vs ! i\<rparr>"
    if "i < length (r # rest)" for i
  proof (cases i)
    case 0
    then show ?thesis using ih r vs by simp
  next
    case (Suc i')
    then have "i' < length rest" using that by simp
    moreover from this have "rest ! i' \<noteq> r" using r(2) by (metis nth_mem)
    ultimately show ?thesis using ih Suc vs by simp
  qed
  show ?case unfolding step using ih a by auto
qed

text \<open>
  Claim C3. For every input vector, \<open>fcn\<close> first assigns the vector to the parameters of
  the adapter and then returns \<open>-0.5\<close> times the statistic, evaluated on the model set
  after the assignment; the model set is left with the assigned values. When the
  adapter holds the free-parameter view and the vector has its length, the free
  parameter at index \<open>i\<close> has the value \<open>v[i]\<close> afterwards.
\<close>

theorem fcn_assigns_then_scales:
  "fcn like v ms =
     (- (1/2) * like_function like (ms\<lparr>parameters := set_values (like_parameters like) v (parameters ms)\<rparr>),
      ms\<lparr>parameters := set_values (like_parameters like) v (parameters ms)\<rparr>) \<and>
   (like_parameters like = free_parameters (parameters ms) \<and>
    length v = length (free_parameters (parameters ms)) \<longrightarrow>
      (\<forall>i<length v.
         par_value (parameters (snd (fcn like v ms)) ! (free_parameters (parameters ms) ! i)) = v ! i))"
proof (intro conjI impI allI)
  show "fcn like v ms =
     (- (1/2) * like_function like (ms\<lparr>parameters := set_values (like_parameters like) v (parameters ms)\<rparr>),
      ms\<lparr>parameters := set_values (like_parameters like) v (parameters ms)\<rparr>)"
    by (simp add: fcn_def Let_def)
next
  fix i
  assume a: "like_parameters like = free_parameters (parameters ms) \<and>
    length v = length (free_parameters (parameters ms))" and i: "i < length v"
  have "\<forall>r\<in>set (free_parameters (parameters ms)). r < length (parameters ms)"
    by (simp add: free_parameters_range)
  from set_values_nth[OF free_parameters_distinct this, of v] a i
  have "set_values (free_parameters (parameters ms)) v (parameters ms)
          ! (free_parameters (parameters ms) ! i) =
        (parameters ms ! (free_parameters (parameters ms) ! i))\<lparr>par_value := v ! i\<rparr>"
    by simp
  then show "par_value (parameters (snd (fcn like v ms)) ! (free_parameters (parameters ms) ! i)) = v ! i"
    using a by (simp add: fcn_def Let_def)
qed

theorem fcn_assigns_then_scales_witness:
  "like_parameters example_like = free_parameters (parameters example_models) \<and>
   length [4, 6 :: real] = length (free_parameters (parameters example_models)) \<and>
   fst (fcn example_like [4, 6] example_models) = - (11/2) \<and>
   par_value (parameters (snd (fcn example_like [4, 6] example_models)) ! 0) = 4 \<and>
   par_value (parameters (snd (fcn example_like [4, 6] example_models)) ! 2) = 6"
proof -
  have h: "like_parameters example_like = free_parameters (parameters example_models) \<and>
           length [4, 6 :: real] = length (free_parameters (parameters example_models))"
    by (simp add: example_like_def example_free)
  note t = fcn_assigns_then_scales[of example_like "[4, 6]" example_models]
  have vals: "\<forall>i<length [4, 6 :: real].
         par_value (parameters (snd (fcn example_like [4, 6] example_models))
                      ! (free_parameters (parameters example_models) ! i)) = [4, 6] ! i"
    using t h by blast
  have a: "par_value (parameters (snd (fcn example_like [4, 6] example_models)) ! 0) = 4"
    using vals[rule_format, of 0] by (simp add: example_free)
  have b: "par_value (parameters (snd (fcn example_like [4, 6] example_models)) ! 2) = 6"
    using vals[rule_format, of 1] by (simp add: example_free)
  have "fst (fcn example_like [4, 6] example_models) =
        - (1/2) * like_function example_like
           (example_models\<lparr>parameters :=
              set_values (like_parameters example_like) [4, 6] (parameters example_models)\<rparr>)"
    using t by simp
  also have "\<dots> = - (11/2)"
    by (simp add: example_like_def example_free example_datasets_def)
       (simp add: set_values_def example_models_def par_index_def par_reference_def
          par_amplitude_def)
  finally show ?thesis using h a b by blast
qed

section \<open>The example run\<close>

lemma example_getitems:
  "getitem default_opts ''log_dir'' = Inr PyNone"
  "getitem default_opts ''resume'' = Inr (PyStr ''subfolder'')"
  "getitem default_opts ''step_sampler'' = Inr (PyBool False)"
  "getitem default_opts ''live_points'' = Inr (PyInt 200)"
  "getitem default_opts ''frac_remain'' = Inr (PyFloat (1/2))"
  by (simp_all add: getitem_def default_opts_def)

lemma example_transform:
  "prior_inverse_cdf (map (\<lambda>r. Some (parameters example_models ! r)) [0, 2]) [1/2, 1/2]
     = Inr [3, 5]"
  by (simp add: prior_inverse_cdf_def example_models_def par_index_def par_amplitude_def)

lemma noprior_transform:
  "prior_inverse_cdf (map (\<lambda>r. Some (parameters models_noprior ! r)) [0, 2]) [1/2, 1/2]
     = Inl (AttributeError ''_inverse_cdf'')"
  by (simp add: prior_inverse_cdf_def models_noprior_def par_index_def par_amplitude_def)

lemma example_fcn:
  "fcn \<lparr>like_function = stat_sum_likelihood example_datasets, like_parameters = [0, 2]\<rparr>
      [3, 5] example_models =
   (- (9/2), example_models\<lparr>parameters :=
        [par_index\<lparr>par_value := 3\<rparr>, par_reference, par_amplitude\<lparr>par_value := 5\<rparr>]\<rparr>)"
  by (simp add: fcn_def Let_def set_values_def example_datasets_def example_models_def)
     (simp add: par_index_def par_reference_def par_amplitude_def)





lemma noprior_run:
  "run one_point_engine example_sampler datasets_noprior =
     (Inl (AttributeError ''_inverse_cdf''), example_sampler, datasets_noprior)"
proof -
  have b: "backend example_sampler = ''ultranest''" by (simp add: example_sampler_def)
  have f: "free_parameters (parameters models_noprior) = [0, 2]"
    by (simp add: models_noprior_def free_parameters_def par_index_def par_reference_def
        par_amplitude_def)
  have m: "models datasets_noprior = models_noprior" by (simp add: datasets_noprior_def)
  have d: "datasets_noprior\<lparr>models := models_noprior\<rparr> = datasets_noprior"
    by (simp add: datasets_noprior_def)
  have s: "sampler_ultranest one_point_engine example_sampler [0, 2]
      \<lparr>like_function = stat_sum_likelihood datasets_noprior, like_parameters = [0, 2]\<rparr>
      models_noprior =
     (Inl (AttributeError ''_inverse_cdf''), example_sampler, models_noprior)"
    unfolding sampler_ultranest_def
    by (simp add: Let_def example_sampler_def example_getitems one_point_engine_def
        prior_inverse_cdf_def models_noprior_def
        par_index_def par_reference_def par_amplitude_def)
  show ?thesis
    unfolding run_def parse_datasets_def
    by (simp add: Let_def b m f s d)
qed

section \<open>An unsupported backend\<close>

text \<open>
  The method \<open>run\<close> has a branch for a backend that is not supported. For a sampler
  object whose backend is not \<open>"ultranest"\<close>, it raises
  \<open>ValueError("sampler <backend> is not supported.")\<close>. Whatever the engine is, it is
  not called: the sampler object and the dataset collection are left as they were, so
  no other backend is used and nothing is sampled. Such an object exists only when the
  attribute \<open>backend\<close> is assigned after construction.
\<close>

theorem run_unsupported_backend:
  "backend self \<noteq> ''ultranest'' \<Longrightarrow>
   run eng self datasets =
     (Inl (ValueError (''sampler '' @ backend self @ '' is not supported.'')), self, datasets)"
  by (simp add: run_def parse_datasets_def)

theorem run_unsupported_backend_witness:
  "backend emcee_sampler \<noteq> ''ultranest'' \<and>
   run one_point_engine emcee_sampler example_datasets =
     (Inl (ValueError ''sampler emcee is not supported.''), emcee_sampler, example_datasets)"
proof -
  have h: "backend emcee_sampler \<noteq> ''ultranest''"
    by (simp add: emcee_sampler_def example_sampler_def)
  have b: "backend emcee_sampler = ''emcee''"
    by (simp add: emcee_sampler_def example_sampler_def)
  show ?thesis
    using run_unsupported_backend[OF h, of one_point_engine example_datasets] h
    by (simp add: b)
qed

text \<open>
  Claim C8 says that a sampler configured with a backend other than \<open>"ultranest"\<close>
  raises a configuration error when a sampling run starts. The constructor does not
  return for such a backend: \<open>default_opts\<close> is bound only in the \<open>"ultranest"\<close> branch,
  and reading it raises \<open>UnboundLocalError\<close>. With the backend \<open>"emcee"\<close> no sampler
  object is made, so no run starts and the error of \<open>run\<close> is never reached.
\<close>

theorem Sampler_init_emcee_unbound_local:
  "Sampler_init ''emcee'' None = Inl (UnboundLocalError ''default_opts'')"
  by (simp add: Sampler_init_def)

section \<open>The result of a run\<close>




section \<open>A free parameter without a prior\<close>

text \<open>
  The prior transform starts with a guard whose message says that some parameters
  have no prior. The guard tests whether the collection contains \<open>None\<close>. A parameter
  without a prior is a parameter object whose field \<open>prior\<close> is \<open>None\<close>; it is not \<open>None\<close>
  itself, so it passes the guard, and the read of the inverse CDF of its prior raises
  \<open>AttributeError\<close>. The collection that \<open>sampler_ultranest\<close> hands to the transform
  holds parameter objects only, so the error of the guard is never raised there.
\<close>

lemma inverse_cdfs_error_kind:
  "inverse_cdfs xs = Inl e \<Longrightarrow>
   e = AttributeError ''prior'' \<or> e = AttributeError ''_inverse_cdf''"
  by (induction xs arbitrary: e rule: inverse_cdfs.induct)
     (auto split: option.splits sum.splits)

lemma transform_guard_never_raised:
  "prior_inverse_cdf (map (\<lambda>r. Some (ps ! r)) refs) vals \<noteq> Inl (ValueError msg)"
proof -
  have "None \<notin> set (map (\<lambda>r. Some (ps ! r)) refs)" by auto
  then have eq: "prior_inverse_cdf (map (\<lambda>r. Some (ps ! r)) refs) vals =
             inverse_cdfs (zip (map (\<lambda>r. Some (ps ! r)) refs) vals)"
    by (simp only: prior_inverse_cdf_def if_False)
  show ?thesis
  proof
    assume "prior_inverse_cdf (map (\<lambda>r. Some (ps ! r)) refs) vals = Inl (ValueError msg)"
    then have "inverse_cdfs (zip (map (\<lambda>r. Some (ps ! r)) refs) vals) = Inl (ValueError msg)"
      using eq by simp
    from inverse_cdfs_error_kind[OF this] show False by simp
  qed
qed

lemma inverse_cdfs_missing_prior:
  "None \<notin> set pars \<Longrightarrow> i < length pars \<Longrightarrow> i < length vals \<Longrightarrow>
   \<exists>p. pars ! i = Some p \<and> par_prior p = None \<Longrightarrow>
   inverse_cdfs (zip pars vals) = Inl (AttributeError ''_inverse_cdf'')"
proof (induction pars arbitrary: vals i)
  case Nil
  then show ?case by simp
next
  case (Cons q pars)
  from Cons.prems(3) obtain v vs where vals: "vals = v # vs" by (cases vals) auto
  from Cons.prems(1) obtain q' where q: "q = Some q'" by (cases q) auto
  show ?case
  proof (cases "par_prior q'")
    case None
    then show ?thesis by (simp add: vals q)
  next
    case (Some f)
    with Cons.prems(4) q obtain j where i: "i = Suc j" by (cases i) auto
    have "inverse_cdfs (zip pars vs) = Inl (AttributeError ''_inverse_cdf'')"
      using Cons.prems i vals by (intro Cons.IH[of j vs]) auto
    then show ?thesis by (simp add: vals q Some)
  qed
qed

lemma missing_prior_attribute_error:
  "None \<notin> set pars \<Longrightarrow> i < length pars \<Longrightarrow> i < length vals \<Longrightarrow>
   \<exists>p. pars ! i = Some p \<and> par_prior p = None \<Longrightarrow>
   prior_inverse_cdf pars vals = Inl (AttributeError ''_inverse_cdf'')"
  by (simp add: prior_inverse_cdf_def inverse_cdfs_missing_prior)

text \<open>
  Claim C6 says that sampling with a free parameter that has no prior fails with the
  missing-prior error, from a check made before any likelihood evaluation. In the
  example the free parameter \<open>amplitude\<close> has no prior. The guard does not see it, and
  the run fails with \<open>AttributeError\<close> on the inverse CDF, raised inside the prior
  transform when the engine calls it, instead of the error that the guard is there to
  raise.
\<close>

theorem run_missing_prior_attribute_error:
  "par_prior (parameters (models datasets_noprior) ! 2) = None \<and>
   \<not> par_frozen (parameters (models datasets_noprior) ! 2) \<and>
   fst (run one_point_engine example_sampler datasets_noprior)
     = Inl (AttributeError ''_inverse_cdf'')"
  by (simp add: noprior_run)
     (simp add: datasets_noprior_def models_noprior_def par_amplitude_def)

section \<open>Seeded simulation: determinism\<close>

lemma npred_same_model_state:
  "same_model_state sim sim' \<Longrightarrow> npred env sim' = npred env sim"
  by (rule ext) (simp add: same_model_state_def npred_def split: sum.splits)

lemma simulate_one_same_model_state:
  assumes "same_model_state sim sim'"
  shows "simulate_one env sim' seed = simulate_one env sim seed"
proof -
  have n: "npred env sim' = npred env sim"
    by (rule npred_same_model_state[OF assms])
  have f: "background_model sim' = background_model sim" "alpha sim' = alpha sim"
    "source_model sim' = source_model sim"
    using assms by (simp_all add: same_model_state_def)
  show ?thesis unfolding simulate_one_def n f ..
qed

lemma simulate_one_obs_id:
  "simulate_one env sim seed = Inr ob \<Longrightarrow> obs_id ob = seed"
  by (auto simp: simulate_one_def Let_def split: option.splits sum.splits prod.splits)

lemma same_model_state_refl: "same_model_state sim sim"
  by (simp add: same_model_state_def)

lemma same_model_state_obs_result:
  "same_model_state sim (sim\<lparr>obs := x, result := y\<rparr>)"
  "same_model_state sim (sim\<lparr>obs := x\<rparr>)"
  "same_model_state sim (sim\<lparr>result := y\<rparr>)"
  by (simp_all add: same_model_state_def)




section \<open>Seeded simulation: batches\<close>

lemma batch_loop_ok:
  "\<forall>s\<in>set seeds. \<not> isl (simulate_one env sim s) \<Longrightarrow>
   \<exists>sim'. batch_loop env seeds sim = Inr sim' \<and> same_model_state sim sim' \<and>
      result sim' = result sim @ map (\<lambda>s. projr (simulate_one env sim s)) seeds"
proof (induction seeds arbitrary: sim)
  case Nil
  then show ?case by (simp add: same_model_state_refl)
next
  case (Cons seed seeds)
  from Cons.prems obtain ob where ob: "simulate_one env sim seed = Inr ob"
    by (cases "simulate_one env sim seed") auto
  let ?sim1 = "sim\<lparr>obs := Some ob, result := result sim @ [ob]\<rparr>"
  have step: "batch_loop env (seed # seeds) sim = batch_loop env seeds ?sim1"
    by (simp add: simulate_obs_def ob)
  have sms: "same_model_state sim ?sim1" by (rule same_model_state_obs_result)
  have eq: "simulate_one env ?sim1 s = simulate_one env sim s" for s
    by (rule simulate_one_same_model_state[OF sms])
  have "\<exists>sim'. batch_loop env seeds ?sim1 = Inr sim' \<and> same_model_state ?sim1 sim' \<and>
      result sim' = result ?sim1 @ map (\<lambda>s. projr (simulate_one env ?sim1 s)) seeds"
    using Cons.prems by (intro Cons.IH) (simp add: eq)
  then obtain sim' where sim': "batch_loop env seeds ?sim1 = Inr sim'"
     "same_model_state ?sim1 sim'"
     "result sim' = result ?sim1 @ map (\<lambda>s. projr (simulate_one env ?sim1 s)) seeds"
    by blast
  have "same_model_state sim sim'" using sim'(2) by (simp add: same_model_state_def)
  moreover have "result sim' = result sim @ map (\<lambda>s. projr (simulate_one env sim s)) (seed # seeds)"
    using sim'(3) by (simp add: eq ob)
  ultimately show ?case using step sim'(1) by simp
qed

text \<open>
  Claim C5. For every list of seeds for which the single simulations return, the batch
  returns a result set with one observation per seed, in the order of the seeds (the
  identifiers of the observations are the seeds, duplicates kept), and the observation
  at position \<open>i\<close> is the one that a single simulation with the seed at position \<open>i\<close>
  gives on the object as it was before the batch.
\<close>

theorem simulate_batch_order_and_independence:
  assumes "\<forall>s\<in>set seeds. \<not> isl (simulate_one env sim s)"
  shows "\<exists>sim'. simulate_batch env seeds sim = Inr sim' \<and>
           length (result sim') = length seeds \<and>
           map obs_id (result sim') = seeds \<and>
           (\<forall>i<length seeds. simulate_one env sim (seeds ! i) = Inr (result sim' ! i))"
proof -
  let ?sim0 = "sim\<lparr>result := []\<rparr>"
  have sms: "same_model_state sim ?sim0" by (rule same_model_state_obs_result)
  have eq: "simulate_one env ?sim0 s = simulate_one env sim s" for s
    by (rule simulate_one_same_model_state[OF sms])
  have "\<forall>s\<in>set seeds. \<not> isl (simulate_one env ?sim0 s)" using assms by (simp add: eq)
  from batch_loop_ok[OF this]
  obtain sim' where sim': "batch_loop env seeds ?sim0 = Inr sim'"
    "result sim' = map (\<lambda>s. projr (simulate_one env sim s)) seeds"
    by (auto simp: eq)
  have one: "simulate_one env sim (seeds ! i) = Inr (result sim' ! i)" if "i < length seeds" for i
  proof -
    have "\<not> isl (simulate_one env sim (seeds ! i))" using assms that by simp
    then show ?thesis using that by (simp add: sim'(2))
  qed
  have "map obs_id (result sim') = seeds"
  proof (rule nth_equalityI)
    show "length (map obs_id (result sim')) = length seeds" by (simp add: sim'(2))
  next
    fix i assume "i < length (map obs_id (result sim'))"
    then have i: "i < length seeds" by (simp add: sim'(2))
    from one[OF i] have "obs_id (result sim' ! i) = seeds ! i" by (rule simulate_one_obs_id)
    then show "map obs_id (result sim') ! i = seeds ! i" using i by (simp add: sim'(2))
  qed
  then show ?thesis using sim' one by (simp add: simulate_batch_def)
qed

lemma example_simulate_one:
  "simulate_one example_env example_sim 3 =
     Inr \<lparr>obs_id = 3, on_vector = [2, 5], off_vector = None, obs_alpha = None\<rparr>"
  "simulate_one example_env example_sim 1 =
     Inr \<lparr>obs_id = 1, on_vector = [3, 6], off_vector = None, obs_alpha = None\<rparr>"
  by (simp_all add: simulate_one_def npred_def example_env_def example_sim_def)

theorem simulate_batch_order_and_independence_witness:
  "\<not> isl (simulate_one example_env example_sim 3) \<and>
   \<not> isl (simulate_one example_env example_sim 1) \<and>
   (\<exists>sim'. simulate_batch example_env [3, 1, 1] example_sim = Inr sim' \<and>
       map obs_id (result sim') = [3, 1, 1] \<and>
       map on_vector (result sim') = [[2, 5], [3, 6], [3, 6]])"
proof -
  have h: "\<forall>s\<in>set [3, 1, 1]. \<not> isl (simulate_one example_env example_sim s)"
    by (simp add: example_simulate_one)
  from simulate_batch_order_and_independence[OF h]
  obtain sim' where s:
    "simulate_batch example_env [3, 1, 1] example_sim = Inr sim' \<and>
     length (result sim') = length [3, 1, 1 :: int] \<and>
     map obs_id (result sim') = [3, 1, 1] \<and>
     (\<forall>i<length [3, 1, 1 :: int].
        simulate_one example_env example_sim ([3, 1, 1] ! i) = Inr (result sim' ! i))" ..
  then have len: "length (result sim') = Suc (Suc (Suc 0))" by simp
  from s have all: "\<And>i. i < Suc (Suc (Suc 0)) \<Longrightarrow>
        simulate_one example_env example_sim ([3, 1, 1] ! i) = Inr (result sim' ! i)"
    by simp
  have r0: "result sim' ! 0 =
      \<lparr>obs_id = 3, on_vector = [2, 5], off_vector = None, obs_alpha = None\<rparr>"
    using all[of 0] by (simp add: example_simulate_one)
  have r1: "result sim' ! Suc 0 =
      \<lparr>obs_id = 1, on_vector = [3, 6], off_vector = None, obs_alpha = None\<rparr>"
    using all[of "Suc 0"] by (simp add: example_simulate_one)
  have r2: "result sim' ! Suc (Suc 0) =
      \<lparr>obs_id = 1, on_vector = [3, 6], off_vector = None, obs_alpha = None\<rparr>"
    using all[of "Suc (Suc 0)"] by (simp add: example_simulate_one)
  have "result sim' = [result sim' ! 0, result sim' ! Suc 0, result sim' ! Suc (Suc 0)]"
    using len by (intro nth_equalityI) (auto simp: less_Suc_eq)
  then have "map on_vector (result sim') =
      map on_vector [result sim' ! 0, result sim' ! Suc 0, result sim' ! Suc (Suc 0)]"
    by simp
  also have "\<dots> = [[2, 5], [3, 6], [3, 6]]"
    by (simp add: r0 r1 r2)
  finally have on: "map on_vector (result sim') = [[2, 5], [3, 6], [3, 6]]" .
  have "simulate_batch example_env [3, 1, 1] example_sim = Inr sim' \<and>
       map obs_id (result sim') = [3, 1, 1] \<and>
       map on_vector (result sim') = [[2, 5], [3, 6], [3, 6]]"
    using s on by simp
  then have "\<exists>sim'. simulate_batch example_env [3, 1, 1] example_sim = Inr sim' \<and>
       map obs_id (result sim') = [3, 1, 1] \<and>
       map on_vector (result sim') = [[2, 5], [3, 6], [3, 6]]" ..
  moreover have "\<not> isl (simulate_one example_env example_sim 3)"
    "\<not> isl (simulate_one example_env example_sim 1)"
    using h by simp_all
  ultimately show ?thesis by blast
qed

end
